theory Spec2Isabelle
  imports Complex_Main "HOL-Library.Sublist" "HOL-Library.Word"
begin

section \<open>Exceptions and Python built-ins\<close>

text \<open>
  Every exception the adapters can meet is a value. \<open>ExternalError\<close> stands for any
  exception raised inside the libraries the adapters call (tokenizer, model, generation
  pipeline); the adapters contain no \<open>try\<close>, so an exception is the result of the call.
\<close>

datatype error =
    AttributeError string
  | KeyError string
  | IndexError
  | RuntimeError
  | ExternalError string

text \<open>Subscription \<open>d[key]\<close> of a dictionary; an absent key raises.\<close>

definition getitem :: "(string \<rightharpoonup> 'v) \<Rightarrow> string \<Rightarrow> error + 'v" where
  "getitem d key = (case d key of Some v \<Rightarrow> Inr v | None \<Rightarrow> Inl (KeyError key))"

text \<open>\<open>xs[0]\<close> on a Python list or on the first dimension of a tensor.\<close>

fun first_item :: "'a list \<Rightarrow> error + 'a" where
  "first_item [] = Inl IndexError"
| "first_item (item # rest) = Inr item"

text \<open>Reading an instance attribute that may never have been assigned.\<close>

definition getattr :: "string \<Rightarrow> 'a option \<Rightarrow> error + 'a" where
  "getattr name a = (case a of None \<Rightarrow> Inl (AttributeError name) | Some v \<Rightarrow> Inr v)"

text \<open>Sequencing: the first exception ends the computation and is its result.\<close>

definition then_do :: "error + 'a \<Rightarrow> ('a \<Rightarrow> error + 'b) \<Rightarrow> error + 'b" where
  "then_do r f = (case r of Inl e \<Rightarrow> Inl e | Inr v \<Rightarrow> f v)"

text \<open>
  \<open>s.replace(old, new)\<close>: one pass from the left over non-overlapping occurrences of
  \<open>old\<close>; scanning resumes after each occurrence, and the text already emitted is never
  looked at again. With an empty \<open>old\<close>, \<open>new\<close> is inserted before every character and
  at the end.
\<close>

fun replace_scan :: "string \<Rightarrow> string \<Rightarrow> string \<Rightarrow> string" where
  "replace_scan old new [] = []"
| "replace_scan old new (c # cs) =
     (if old \<noteq> [] \<and> prefix old (c # cs)
      then new @ replace_scan old new (drop (length old - 1) cs)
      else c # replace_scan old new cs)"

definition py_replace :: "string \<Rightarrow> string \<Rightarrow> string \<Rightarrow> string" where
  "py_replace s old new =
     (if old = [] then new @ concat (map (\<lambda>c. c # new) s)
      else replace_scan old new s)"

text \<open>
  \<open>s.split(sep)\<close> for a one-character separator, as in \<open>split(':')\<close>: the pieces between
  the separators, in order; the result is never empty.
\<close>

fun split_scan :: "char \<Rightarrow> string \<Rightarrow> string \<Rightarrow> string list" where
  "split_scan sep acc [] = [rev acc]"
| "split_scan sep acc (c # cs) =
     (if c = sep then rev acc # split_scan sep [] cs
      else split_scan sep (c # acc) cs)"

definition py_split :: "string \<Rightarrow> char \<Rightarrow> string list" where
  "py_split s sep = split_scan sep [] s"

section \<open>Text-to-text adapter: BloomChatMiner\<close>

subsection \<open>Transcript formatting\<close>

type_synonym message = "string \<rightharpoonup> string"

definition newline :: string where
  "newline = [CHR 0x0A]"

text \<open>
  One \<open>if message['role'] == role: processed_history += marker + message['content'] + '\n'\<close>
  statement of the loop body. The role is looked up in every statement, the content only
  when the role matches.
\<close>

definition role_step :: "string \<Rightarrow> string \<Rightarrow> message \<Rightarrow> string \<Rightarrow> error + string" where
  "role_step role marker message processed_history =
     (case getitem message ''role'' of
        Inl e \<Rightarrow> Inl e
      | Inr r \<Rightarrow>
          if r = role
          then (case getitem message ''content'' of
                  Inl e \<Rightarrow> Inl e
                | Inr c \<Rightarrow> Inr (processed_history @ marker @ c @ newline))
          else Inr processed_history)"

definition history_step :: "message \<Rightarrow> string \<Rightarrow> error + string" where
  "history_step message processed_history =
     (case role_step ''system'' ''<human>: '' message processed_history of
        Inl e \<Rightarrow> Inl e
      | Inr h1 \<Rightarrow>
          (case role_step ''assistant'' ''<bot>: '' message h1 of
             Inl e \<Rightarrow> Inl e
           | Inr h2 \<Rightarrow> role_step ''user'' ''<human>: '' message h2))"

fun history_loop :: "message list \<Rightarrow> string \<Rightarrow> error + string" where
  "history_loop [] processed_history = Inr processed_history"
| "history_loop (message # rest) processed_history =
     (case history_step message processed_history of
        Inl e \<Rightarrow> Inl e
      | Inr h \<Rightarrow> history_loop rest h)"

definition process_history :: "message list \<Rightarrow> error + string" where
  "process_history history = history_loop history []"

text \<open>
  The transcript in the specification's words: one line per recognized message, in order.
\<close>

definition role_tagged :: "message \<Rightarrow> bool" where
  "role_tagged m \<longleftrightarrow> m ''role'' \<noteq> None \<and> m ''content'' \<noteq> None"

definition spec_line :: "message \<Rightarrow> string" where
  "spec_line m =
     (case (m ''role'', m ''content'') of
        (Some r, Some c) \<Rightarrow>
          if r = ''system'' \<or> r = ''user'' then ''<human>: '' @ c @ newline
          else if r = ''assistant'' then ''<bot>: '' @ c @ newline
          else []
      | _ \<Rightarrow> [])"

definition spec_transcript :: "message list \<Rightarrow> string" where
  "spec_transcript ms = concat (map spec_line ms)"

text \<open>A transcript is empty or contains a colon: every marker ends in \<open>": "\<close>.\<close>

definition colon_or_empty :: "string \<Rightarrow> bool" where
  "colon_or_empty s \<longleftrightarrow> s = [] \<or> CHR '':'' \<in> set s"

subsection \<open>The adapter object and the libraries it calls\<close>

text \<open>
  The options \<open>add_args\<close> declares: \<open>--deployment_framework\<close>, \<open>--bloom.model_name\<close> and
  \<open>--bloom.max_new_tokens\<close>.
\<close>

record bloom_config =
  deployment_framework :: string
  bloom_model_name :: string
  bloom_max_new_tokens :: int

type_synonym token_ids = "int list list"

record tokenizer_obj =
  encode :: "string \<Rightarrow> error + token_ids"
  decode :: "int list \<Rightarrow> error + string"
  eos_token_id :: "int option"

record causal_lm =
  hidden_size :: int

record ds_engine_obj =
  module_generate :: "token_ids \<Rightarrow> nat \<Rightarrow> error + token_ids"
  module_eval :: "error + unit"

record gen_kwargs =
  max_length :: nat
  do_sample :: bool
  top_k :: nat
  num_return_sequences :: nat
  kw_eos_token_id :: "int option"

type_synonym pipeline_obj = "string \<Rightarrow> gen_kwargs \<Rightarrow> error + (string \<rightharpoonup> string) list"

text \<open>
  The instance attributes that \<open>__init__\<close> and \<open>forward\<close> read or write. An attribute that
  has not been assigned is \<open>None\<close>, and reading it raises \<open>AttributeError\<close>. \<open>config\<close> is
  provided by the base class before the subclass constructor body runs.
\<close>

record bloom_miner =
  config :: bloom_config
  model_name :: "string option"
  tokenizer :: "tokenizer_obj option"
  local_rank :: "int option"
  model :: "causal_lm option"
  ds_engine :: "ds_engine_obj option"
  pipe :: "pipeline_obj option"

record ds_config =
  fp16_enabled :: bool
  bf16_enabled :: bool
  zero_stage :: nat
  overlap_comm :: bool
  contiguous_gradients :: bool
  reduce_bucket_size :: int
  stage3_prefetch_bucket_size :: real
  stage3_param_persistence_threshold :: int
  steps_per_print :: nat
  train_batch_size :: int
  train_micro_batch_size_per_gpu :: nat
  wall_clock_breakdown :: bool

text \<open>
  The library calls of the constructor and of \<open>forward\<close>, each of which may raise:
  \<open>AutoTokenizer.from_pretrained\<close>, \<open>int(os.getenv(name, default))\<close>,
  \<open>torch.cuda.set_device\<close>, \<open>deepspeed.init_distributed\<close>,
  \<open>AutoModelForCausalLM.from_pretrained\<close> (plain, and with \<open>device_map="auto",
  load_in_8bit=True\<close>), \<open>HfDeepSpeedConfig\<close>, \<open>deepspeed.initialize(...)[0]\<close>, \<open>pipeline\<close>
  and \<open>Tensor.to\<close>.
\<close>

record libs =
  auto_tokenizer :: "string \<Rightarrow> error + tokenizer_obj"
  getenv_int :: "string \<Rightarrow> string \<Rightarrow> error + int"
  cuda_set_device :: "int \<Rightarrow> error + unit"
  init_distributed :: "error + unit"
  auto_model :: "string \<Rightarrow> error + causal_lm"
  auto_model_8bit :: "string \<Rightarrow> error + causal_lm"
  hf_deepspeed_config :: "ds_config \<Rightarrow> error + unit"
  ds_initialize :: "causal_lm \<Rightarrow> ds_config \<Rightarrow> error + ds_engine_obj"
  make_pipeline :: "causal_lm \<Rightarrow> tokenizer_obj \<Rightarrow> error + pipeline_obj"
  tensor_to :: "token_ids \<Rightarrow> int \<Rightarrow> error + token_ids"

subsection \<open>Construction\<close>







subsection \<open>Generation\<close>

text \<open>
  The \<open>deepspeed\<close> branch up to the decoded model output:
  \<open>self.tokenizer.decode(outputs[0], skip_special_tokens=True)\<close>.
\<close>

definition generate_deepspeed :: "libs \<Rightarrow> bloom_miner \<Rightarrow> string \<Rightarrow> error + string" where
  "generate_deepspeed L self history =
     then_do (getattr ''tokenizer'' (tokenizer self)) (\<lambda>tok.
     then_do (encode tok history) (\<lambda>encoded.
     then_do (getattr ''local_rank'' (local_rank self)) (\<lambda>rank.
     then_do (tensor_to L encoded rank) (\<lambda>inputs.
     then_do (getattr ''ds_engine'' (ds_engine self)) (\<lambda>engine.
     then_do (module_generate engine inputs 60) (\<lambda>outputs.
     then_do (first_item outputs) (\<lambda>out0.
       decode tok out0)))))))"

definition forward_deepspeed :: "libs \<Rightarrow> bloom_miner \<Rightarrow> string \<Rightarrow> error + string" where
  "forward_deepspeed L self history =
     then_do (generate_deepspeed L self history) (\<lambda>decoded.
       Inr (py_replace decoded history []))"

text \<open>
  The other branch up to \<open>self.pipe(...)[0]['generated_text']\<close>. The callable
  \<open>self.pipe\<close> is read before its arguments are evaluated.
\<close>

definition generate_accelerate :: "bloom_miner \<Rightarrow> string \<Rightarrow> error + string" where
  "generate_accelerate self history =
     then_do (getattr ''pipe'' (pipe self)) (\<lambda>p.
     then_do (getattr ''tokenizer'' (tokenizer self)) (\<lambda>tok.
     then_do (p history \<lparr> max_length = 200, do_sample = True, top_k = 10,
                         num_return_sequences = 1,
                         kw_eos_token_id = eos_token_id tok \<rparr>) (\<lambda>results.
     then_do (first_item results) (\<lambda>result.
       getitem result ''generated_text''))))"

definition forward_accelerate :: "bloom_miner \<Rightarrow> string \<Rightarrow> error + string" where
  "forward_accelerate self history =
     then_do (generate_accelerate self history) (\<lambda>generated_text.
       Inr (py_replace (last (py_split generated_text CHR '':'')) history []))"

text \<open>
  \<open>BloomChatMiner.forward\<close>. The two \<open>print\<close> calls and the timing of the call write to
  standard output only and are left out.
\<close>

definition bloom_forward :: "libs \<Rightarrow> bloom_miner \<Rightarrow> message list \<Rightarrow> error + string" where
  "bloom_forward L self messages =
     then_do (process_history messages) (\<lambda>history.
       if deployment_framework (config self) = ''deepspeed''
       then forward_deepspeed L self history
       else forward_accelerate self history)"

section \<open>Text-to-video base class: the synapse shim\<close>

text \<open>
  A blacklist decision is \<open>Union[Tuple[bool, str], bool]\<close>. The forward-call object of the
  serving framework is opaque to the adapters and is a type parameter.
\<close>

datatype blacklist_result = Decision bool | DecisionReason bool string

type_synonym bytes = "8 word list"

text \<open>
  The methods of the enclosing miner that the shim calls: \<open>forward\<close> is abstract in
  \<open>BaseTextToVideoMiner\<close>, \<open>blacklist\<close> and \<open>priority\<close> come from the subclass or the
  framework's base class.
\<close>

record 'call video_miner =
  forward :: "string \<Rightarrow> int \<Rightarrow> int \<Rightarrow> int \<Rightarrow> error + bytes"
  blacklist :: "'call \<Rightarrow> error + blacklist_result"
  priority :: "'call \<Rightarrow> error + real"

record 'call synapse =
  syn_priority :: "'call \<Rightarrow> error + real"
  syn_blacklist :: "'call \<Rightarrow> error + blacklist_result"
  syn_backward :: "bytes \<Rightarrow> string \<Rightarrow> real list \<Rightarrow> error + unit"
  syn_forward :: "string \<Rightarrow> int \<Rightarrow> int \<Rightarrow> int \<Rightarrow> error + bytes"

text \<open>The inner class \<open>Synapse\<close> of \<open>BaseTextToVideoMiner.__init__\<close>, closed over \<open>self\<close>.\<close>

definition Synapse :: "'call video_miner \<Rightarrow> 'call synapse" where
  "Synapse self =
     \<lparr> syn_priority = (\<lambda>forward_call. priority self forward_call),
       syn_blacklist = (\<lambda>forward_call. blacklist self forward_call),
       syn_backward = (\<lambda>video text rewards. Inr ()),
       syn_forward = (\<lambda>text num_inference_steps num_frames fps.
          forward self text num_inference_steps num_frames fps) \<rparr>"

section \<open>Text-to-embedding adapter: BertEmbeddingMiner\<close>

subsection \<open>Tensors\<close>

text \<open>
  A tensor is its size and its elements by index. Floating-point elements are idealised
  as real numbers here: this shows the shape of a reduction, not its rounding or
  overflow. The special values of floating point are treated in a subsection of their
  own below.
\<close>

record tensor3 =
  size3 :: "nat \<times> nat \<times> nat"
  at3 :: "nat \<Rightarrow> nat \<Rightarrow> nat \<Rightarrow> real"

record tensor2 =
  size2 :: "nat \<times> nat"
  at2 :: "nat \<Rightarrow> nat \<Rightarrow> real"

record int_tensor2 =
  isize2 :: "nat \<times> nat"
  iat2 :: "nat \<Rightarrow> nat \<Rightarrow> int"

text \<open>
  \<open>mask.unsqueeze(-1).expand(size).float()\<close>: a dimension of the mask is kept when it has
  the target's size and repeated when it has size 1; any other size is a
  \<open>RuntimeError\<close>. The new last dimension has size 1 and is always repeated.
\<close>

definition unsqueeze_expand_float :: "int_tensor2 \<Rightarrow> nat \<times> nat \<times> nat \<Rightarrow> error + tensor3" where
  "unsqueeze_expand_float m sz =
     (case sz of (B, S, H) \<Rightarrow>
      case isize2 m of (mB, mS) \<Rightarrow>
        if (mB = B \<or> mB = 1) \<and> (mS = S \<or> mS = 1)
        then Inr \<lparr> size3 = (B, S, H),
                   at3 = (\<lambda>b s h. real_of_int
                            (iat2 m (if mB = B then b else 0) (if mS = S then s else 0))) \<rparr>
        else Inl RuntimeError)"

text \<open>Elementwise product of two tensors of the same size.\<close>

definition mul3 :: "tensor3 \<Rightarrow> tensor3 \<Rightarrow> tensor3" where
  "mul3 x y = \<lparr> size3 = size3 x, at3 = (\<lambda>b s h. at3 x b s h * at3 y b s h) \<rparr>"

text \<open>\<open>torch.sum(x, 1)\<close> and \<open>x.sum(1)\<close>: the sum over the token dimension.\<close>

definition sum_dim1 :: "tensor3 \<Rightarrow> tensor2" where
  "sum_dim1 x =
     (case size3 x of (B, S, H) \<Rightarrow>
        \<lparr> size2 = (B, H), at2 = (\<lambda>b h. \<Sum>s<S. at3 x b s h) \<rparr>)"

text \<open>\<open>torch.clamp(x, min=m)\<close>.\<close>

definition clamp_min :: "tensor2 \<Rightarrow> real \<Rightarrow> tensor2" where
  "clamp_min x m = \<lparr> size2 = size2 x, at2 = (\<lambda>b h. max (at2 x b h) m) \<rparr>"

text \<open>Elementwise quotient of two tensors of the same size.\<close>

definition div2 :: "tensor2 \<Rightarrow> tensor2 \<Rightarrow> tensor2" where
  "div2 x y = \<lparr> size2 = size2 x, at2 = (\<lambda>b h. at2 x b h / at2 y b h) \<rparr>"

text \<open>The L2 norm of row \<open>b\<close>.\<close>

definition row_norm :: "tensor2 \<Rightarrow> nat \<Rightarrow> real" where
  "row_norm x b = (case size2 x of (B, H) \<Rightarrow> sqrt (\<Sum>h<H. (at2 x b h)\<^sup>2))"

text \<open>
  \<open>F.normalize(x, p=2, dim=1)\<close> of the torch library, with its default \<open>eps=1e-12\<close>:
  every row is divided by the larger of its L2 norm and \<open>eps\<close>.
\<close>

definition normalize_eps :: real where
  "normalize_eps = 1 / 10 ^ 12"

definition normalize :: "tensor2 \<Rightarrow> tensor2" where
  "normalize x =
     \<lparr> size2 = size2 x,
       at2 = (\<lambda>b h. at2 x b h / max (row_norm x b) normalize_eps) \<rparr>"

subsection \<open>Mean pooling\<close>

text \<open>
  The model output is indexed with \<open>[0]\<close>, its token embeddings; the encoded input is a
  dictionary of integer tensors.
\<close>

record model_output =
  token_embeddings :: tensor3

type_synonym encoded_input = "string \<rightharpoonup> int_tensor2"

definition pooling_floor :: real where
  "pooling_floor = 1 / 10 ^ 9"

definition mean_pooling :: "model_output \<Rightarrow> int_tensor2 \<Rightarrow> error + tensor2" where
  "mean_pooling output attention_mask =
     (let emb = token_embeddings output in
      then_do (unsqueeze_expand_float attention_mask (size3 emb)) (\<lambda>input_mask_expanded.
        Inr (div2 (sum_dim1 (mul3 emb input_mask_expanded))
                  (clamp_min (sum_dim1 input_mask_expanded) pooling_floor))))"

subsection \<open>The adapter\<close>

record bert_config =
  bert_model_name :: string
  bert_device :: string

text \<open>
  \<open>self.tokenizer\<close> and \<open>self.model\<close> are assigned by \<open>BertEmbeddingMiner.__init__\<close>;
  \<open>encoding_to\<close> is the \<open>.to(device)\<close> of the tokenizer's result.
\<close>

record bert_miner =
  bert_cfg :: bert_config
  bert_tokenizer :: "string list \<Rightarrow> error + encoded_input"
  encoding_to :: "encoded_input \<Rightarrow> string \<Rightarrow> error + encoded_input"
  bert_model :: "encoded_input \<Rightarrow> error + model_output"

definition bert_blacklist :: "bert_miner \<Rightarrow> 'call \<Rightarrow> blacklist_result" where
  "bert_blacklist self forward_call = Decision False"

definition bert_priority :: "bert_miner \<Rightarrow> 'call \<Rightarrow> real" where
  "bert_priority self forward_call = 0"

text \<open>\<open>BertEmbeddingMiner.forward\<close> up to and including the call of \<open>mean_pooling\<close>.\<close>

definition bert_pooled :: "bert_miner \<Rightarrow> string list \<Rightarrow> error + tensor2" where
  "bert_pooled self text =
     then_do (bert_tokenizer self text) (\<lambda>enc.
     then_do (encoding_to self enc (bert_device (bert_cfg self))) (\<lambda>encoded_input.
     then_do (bert_model self encoded_input) (\<lambda>output.
     then_do (getitem encoded_input ''attention_mask'') (\<lambda>attention_mask.
       mean_pooling output attention_mask))))"

definition bert_forward :: "bert_miner \<Rightarrow> string list \<Rightarrow> error + tensor2" where
  "bert_forward self text =
     then_do (bert_pooled self text) (\<lambda>sentence_embeddings.
       Inr (normalize sentence_embeddings))"

subsection \<open>The same reduction over float values with the special values\<close>

text \<open>
  A float is a finite number, a signed infinity (\<open>Infinity True\<close> is the negative one) or
  \<open>NaN\<close>. The special values follow IEEE 754: \<open>NaN\<close> is absorbing, \<open>inf * 0\<close>,
  \<open>inf - inf\<close>, \<open>0 / 0\<close> and \<open>inf / inf\<close> are \<open>NaN\<close>, and a nonzero finite number divided
  by zero is an infinity. Finite arithmetic is exact here (no rounding, no overflow),
  and the sign of a zero is not kept: a division by zero takes the sign of the numerator.
\<close>

datatype fval = Finite real | Infinity bool | NaN

fun fmul :: "fval \<Rightarrow> fval \<Rightarrow> fval" where
  "fmul NaN y = NaN"
| "fmul x NaN = NaN"
| "fmul (Finite x) (Finite y) = Finite (x * y)"
| "fmul (Finite x) (Infinity n) = (if x = 0 then NaN else Infinity (n \<noteq> (x < 0)))"
| "fmul (Infinity m) (Finite y) = (if y = 0 then NaN else Infinity (m \<noteq> (y < 0)))"
| "fmul (Infinity m) (Infinity n) = Infinity (m \<noteq> n)"

fun fadd :: "fval \<Rightarrow> fval \<Rightarrow> fval" where
  "fadd NaN y = NaN"
| "fadd x NaN = NaN"
| "fadd (Finite x) (Finite y) = Finite (x + y)"
| "fadd (Finite x) (Infinity n) = Infinity n"
| "fadd (Infinity m) (Finite y) = Infinity m"
| "fadd (Infinity m) (Infinity n) = (if m = n then Infinity m else NaN)"

fun fdiv :: "fval \<Rightarrow> fval \<Rightarrow> fval" where
  "fdiv NaN y = NaN"
| "fdiv x NaN = NaN"
| "fdiv (Finite x) (Finite y) =
     (if y = 0 then (if x = 0 then NaN else Infinity (x < 0)) else Finite (x / y))"
| "fdiv (Finite x) (Infinity n) = Finite 0"
| "fdiv (Infinity m) (Finite y) = Infinity (m \<noteq> (y < 0))"
| "fdiv (Infinity m) (Infinity n) = NaN"

fun fsqrt :: "fval \<Rightarrow> fval" where
  "fsqrt NaN = NaN"
| "fsqrt (Finite x) = (if x < 0 then NaN else Finite (sqrt x))"
| "fsqrt (Infinity n) = (if n then NaN else Infinity False)"

text \<open>\<open>clamp(x, min=m)\<close> on one element: \<open>NaN\<close> stays \<open>NaN\<close>.\<close>

fun fclamp_min :: "fval \<Rightarrow> real \<Rightarrow> fval" where
  "fclamp_min NaN m = NaN"
| "fclamp_min (Finite x) m = Finite (max x m)"
| "fclamp_min (Infinity n) m = (if n then Finite m else Infinity False)"

text \<open>The sum of \<open>f 0, ..., f (n - 1)\<close>.\<close>

fun fsum :: "nat \<Rightarrow> (nat \<Rightarrow> fval) \<Rightarrow> fval" where
  "fsum 0 f = Finite 0"
| "fsum (Suc n) f = fadd (fsum n f) (f n)"

fun is_finite :: "fval \<Rightarrow> bool" where
  "is_finite (Finite x) = True"
| "is_finite (Infinity n) = False"
| "is_finite NaN = False"

record fp_tensor3 =
  fsize3 :: "nat \<times> nat \<times> nat"
  fat3 :: "nat \<Rightarrow> nat \<Rightarrow> nat \<Rightarrow> fval"

record fp_tensor2 =
  fsize2 :: "nat \<times> nat"
  fat2 :: "nat \<Rightarrow> nat \<Rightarrow> fval"

record fp_model_output =
  fp_token_embeddings :: fp_tensor3

definition fp_unsqueeze_expand_float ::
  "int_tensor2 \<Rightarrow> nat \<times> nat \<times> nat \<Rightarrow> error + fp_tensor3" where
  "fp_unsqueeze_expand_float m sz =
     (case sz of (B, S, H) \<Rightarrow>
      case isize2 m of (mB, mS) \<Rightarrow>
        if (mB = B \<or> mB = 1) \<and> (mS = S \<or> mS = 1)
        then Inr \<lparr> fsize3 = (B, S, H),
                   fat3 = (\<lambda>b s h. Finite (real_of_int
                            (iat2 m (if mB = B then b else 0) (if mS = S then s else 0)))) \<rparr>
        else Inl RuntimeError)"

definition fp_mul3 :: "fp_tensor3 \<Rightarrow> fp_tensor3 \<Rightarrow> fp_tensor3" where
  "fp_mul3 x y = \<lparr> fsize3 = fsize3 x, fat3 = (\<lambda>b s h. fmul (fat3 x b s h) (fat3 y b s h)) \<rparr>"

definition fp_sum_dim1 :: "fp_tensor3 \<Rightarrow> fp_tensor2" where
  "fp_sum_dim1 x =
     (case fsize3 x of (B, S, H) \<Rightarrow>
        \<lparr> fsize2 = (B, H), fat2 = (\<lambda>b h. fsum S (\<lambda>s. fat3 x b s h)) \<rparr>)"

definition fp_clamp_min :: "fp_tensor2 \<Rightarrow> real \<Rightarrow> fp_tensor2" where
  "fp_clamp_min x m = \<lparr> fsize2 = fsize2 x, fat2 = (\<lambda>b h. fclamp_min (fat2 x b h) m) \<rparr>"

definition fp_div2 :: "fp_tensor2 \<Rightarrow> fp_tensor2 \<Rightarrow> fp_tensor2" where
  "fp_div2 x y = \<lparr> fsize2 = fsize2 x, fat2 = (\<lambda>b h. fdiv (fat2 x b h) (fat2 y b h)) \<rparr>"

definition fp_mean_pooling :: "fp_model_output \<Rightarrow> int_tensor2 \<Rightarrow> error + fp_tensor2" where
  "fp_mean_pooling output attention_mask =
     (let emb = fp_token_embeddings output in
      then_do (fp_unsqueeze_expand_float attention_mask (fsize3 emb)) (\<lambda>input_mask_expanded.
        Inr (fp_div2 (fp_sum_dim1 (fp_mul3 emb input_mask_expanded))
                     (fp_clamp_min (fp_sum_dim1 input_mask_expanded) pooling_floor))))"

definition fp_row_norm :: "fp_tensor2 \<Rightarrow> nat \<Rightarrow> fval" where
  "fp_row_norm x b =
     (case fsize2 x of (B, H) \<Rightarrow> fsqrt (fsum H (\<lambda>h. fmul (fat2 x b h) (fat2 x b h))))"

definition fp_normalize :: "fp_tensor2 \<Rightarrow> fp_tensor2" where
  "fp_normalize x =
     \<lparr> fsize2 = fsize2 x,
       fat2 = (\<lambda>b h. fdiv (fat2 x b h) (fclamp_min (fp_row_norm x b) normalize_eps)) \<rparr>"

text \<open>
  Lines 89 to 93 of \<open>forward\<close>: the model output is pooled with the attention mask and
  the sentence embeddings are normalized.
\<close>

definition fp_sentence_embeddings ::
  "fp_model_output \<Rightarrow> int_tensor2 \<Rightarrow> error + fp_tensor2" where
  "fp_sentence_embeddings output attention_mask =
     then_do (fp_mean_pooling output attention_mask) (\<lambda>sentence_embeddings.
       Inr (fp_normalize sentence_embeddings))"

text \<open>A tensor of real numbers as a tensor of finite floats.\<close>

definition finite3 :: "tensor3 \<Rightarrow> fp_tensor3" where
  "finite3 x = \<lparr> fsize3 = size3 x, fat3 = (\<lambda>b s h. Finite (at3 x b s h)) \<rparr>"

definition finite2 :: "tensor2 \<Rightarrow> fp_tensor2" where
  "finite2 x = \<lparr> fsize2 = size2 x, fat2 = (\<lambda>b h. Finite (at2 x b h)) \<rparr>"

section \<open>Concrete adapters\<close>

text \<open>
  Small instances of the objects above, on which the functions can be run: stand-ins for
  the tokenizer, the sharded model, the generation pipeline and the embedding model that
  return fixed values.
\<close>

definition hello_messages :: "message list" where
  "hello_messages = [[''role'' \<mapsto> ''user'', ''content'' \<mapsto> ''hello'']]"

definition hello_history :: string where
  "hello_history = ''<human>: hello'' @ newline"

definition fixed_tokenizer :: "string \<Rightarrow> tokenizer_obj" where
  "fixed_tokenizer decoded =
     \<lparr> encode = (\<lambda>s. Inr [[1, 2, 3]]),
       decode = (\<lambda>ids. Inr decoded),
       eos_token_id = Some 2 \<rparr>"

definition fixed_engine :: "error + token_ids \<Rightarrow> ds_engine_obj" where
  "fixed_engine result =
     \<lparr> module_generate = (\<lambda>inputs max_len. result), module_eval = Inr () \<rparr>"

definition fixed_pipeline :: "error + string \<Rightarrow> pipeline_obj" where
  "fixed_pipeline result =
     (\<lambda>history kwargs.
        case result of
          Inl e \<Rightarrow> Inl e
        | Inr generated \<Rightarrow> Inr [[''generated_text'' \<mapsto> generated]])"

definition fixed_libs :: libs where
  "fixed_libs =
     \<lparr> auto_tokenizer = (\<lambda>name. Inr (fixed_tokenizer [])),
       getenv_int = (\<lambda>name default. Inr 0),
       cuda_set_device = (\<lambda>device. Inr ()),
       init_distributed = Inr (),
       auto_model = (\<lambda>name. Inr \<lparr> hidden_size = 64 \<rparr>),
       auto_model_8bit = (\<lambda>name. Inr \<lparr> hidden_size = 64 \<rparr>),
       hf_deepspeed_config = (\<lambda>cfg. Inr ()),
       ds_initialize = (\<lambda>m cfg. Inr (fixed_engine (Inr [[1, 2, 3]]))),
       make_pipeline = (\<lambda>m tok. Inr (fixed_pipeline (Inr []))),
       tensor_to = (\<lambda>t device. Inr t) \<rparr>"

text \<open>The object after a base-class constructor that assigns \<open>config\<close> only.\<close>

definition base_miner :: "string \<Rightarrow> bloom_miner" where
  "base_miner framework =
     \<lparr> config = \<lparr> deployment_framework = framework,
                  bloom_model_name = ''sambanovasystems/BLOOMChat-176B-v1'',
                  bloom_max_new_tokens = 100 \<rparr>,
       model_name = None, tokenizer = None, local_rank = None, model = None,
       ds_engine = None, pipe = None \<rparr>"

text \<open>
  Objects on which \<open>forward\<close> can run: the attributes it reads are all assigned.
\<close>

definition deepspeed_miner :: "string \<Rightarrow> error + token_ids \<Rightarrow> bloom_miner" where
  "deepspeed_miner decoded generated =
     (base_miner ''deepspeed'')
       \<lparr> tokenizer := Some (fixed_tokenizer decoded),
         local_rank := Some 0,
         ds_engine := Some (fixed_engine generated) \<rparr>"

definition accelerate_miner :: "error + string \<Rightarrow> bloom_miner" where
  "accelerate_miner generated =
     (base_miner ''accelerate'')
       \<lparr> tokenizer := Some (fixed_tokenizer []),
         pipe := Some (fixed_pipeline generated) \<rparr>"


definition fixed_bert :: "error + model_output \<Rightarrow> int_tensor2 \<Rightarrow> bert_miner" where
  "fixed_bert output attention_mask =
     \<lparr> bert_cfg = \<lparr> bert_model_name = ''bert-base-cased'', bert_device = ''cuda:0'' \<rparr>,
       bert_tokenizer = (\<lambda>text. Inr [''attention_mask'' \<mapsto> attention_mask]),
       encoding_to = (\<lambda>enc device. Inr enc),
       bert_model = (\<lambda>enc. output) \<rparr>"

definition const_mask :: "nat \<times> nat \<Rightarrow> int \<Rightarrow> int_tensor2" where
  "const_mask sz v = \<lparr> isize2 = sz, iat2 = (\<lambda>b s. v) \<rparr>"

text \<open>
  A batch of one sentence of two tokens with hidden size 2: every token vector is
  \<open>[3, 4]\<close>; the mask marks the first token as real and the second as padding.
\<close>

definition three_four_output :: model_output where
  "three_four_output =
     \<lparr> token_embeddings =
         \<lparr> size3 = (1, 2, 2), at3 = (\<lambda>b s h. if h = 0 then 3 else 4) \<rparr> \<rparr>"

definition first_token_mask :: int_tensor2 where
  "first_token_mask = \<lparr> isize2 = (1, 2), iat2 = (\<lambda>b s. if s = 0 then 1 else 0) \<rparr>"

definition three_four_pooled :: tensor2 where
  "three_four_pooled = \<lparr> size2 = (1, 2), at2 = (\<lambda>b h. if h = 0 then 3 else 4) \<rparr>"

text \<open>
  The sentence of two tokens \<open>[3, 4]\<close> as floats, and a batch of one token whose
  embedding is positive infinity.
\<close>

definition fp_three_four_output :: fp_model_output where
  "fp_three_four_output =
     \<lparr> fp_token_embeddings = finite3 (token_embeddings three_four_output) \<rparr>"

definition fp_zero_row :: fp_tensor2 where
  "fp_zero_row = \<lparr> fsize2 = (1, 2), fat2 = (\<lambda>b h. Finite 0) \<rparr>"

definition fp_inf_output :: fp_model_output where
  "fp_inf_output =
     \<lparr> fp_token_embeddings = \<lparr> fsize3 = (1, 1, 1), fat3 = (\<lambda>b s h. Infinity False) \<rparr> \<rparr>"

definition fp_nan_row :: fp_tensor2 where
  "fp_nan_row = \<lparr> fsize2 = (1, 1), fat2 = (\<lambda>b h. NaN) \<rparr>"

section \<open>Verified properties\<close>

lemma then_do_simps [simp]:
  "then_do (Inl e) f = Inl e"
  "then_do (Inr v) f = f v"
  by (simp_all add: then_do_def)

lemma then_do_Inr_iff:
  "then_do r f = Inr y \<longleftrightarrow> (\<exists>v. r = Inr v \<and> f v = Inr y)"
  by (cases r) simp_all

lemma set_replace_scan: "set (replace_scan old [] s) \<subseteq> set s"
proof (induction old "[]::string" s rule: replace_scan.induct)
  case (1 old)
  show ?case by simp
next
  case (2 old c cs)
  show ?case
  proof (cases "old \<noteq> [] \<and> prefix old (c # cs)")
    case True
    then have eq: "replace_scan old [] (c # cs) = replace_scan old [] (drop (length old - 1) cs)"
      by auto
    from True 2 have "set (replace_scan old [] (drop (length old - 1) cs)) \<subseteq> set (drop (length old - 1) cs)"
      by blast
    also have "\<dots> \<subseteq> set cs" by (rule set_drop_subset)
    finally have "set (replace_scan old [] (drop (length old - 1) cs)) \<subseteq> set cs" .
    then show ?thesis unfolding eq by (simp add: subset_insertI2)
  next
    case False
    then have eq: "replace_scan old [] (c # cs) = c # replace_scan old [] cs"
      by auto
    from False 2 have "set (replace_scan old [] cs) \<subseteq> set cs" by blast
    then show ?thesis unfolding eq by (simp add: subset_insertI2)
  qed
qed

lemma set_py_replace: "set (py_replace s old []) \<subseteq> set s"
  using set_replace_scan by (auto simp: py_replace_def)

lemma split_scan_nonempty: "split_scan sep acc s \<noteq> []"
  by (induction s arbitrary: acc) simp_all

lemma split_scan_last: "sep \<notin> set acc \<Longrightarrow> sep \<notin> set (last (split_scan sep acc s))"
  by (induction s arbitrary: acc) (simp_all add: split_scan_nonempty)

lemma py_split_last: "sep \<notin> set (last (py_split s sep))"
  by (simp add: py_split_def split_scan_last)

lemma replace_scan_echo:
  assumes "h \<noteq> []"
  shows "replace_scan h [] (h @ cont) = replace_scan h [] cont"
proof -
  from assms obtain c cs where h: "h = c # cs" by (cases h) auto
  have "replace_scan h [] (c # (cs @ cont)) = replace_scan h [] (drop (length h - 1) (cs @ cont))"
    by (simp add: h)
  then show ?thesis by (simp add: h)
qed

lemma replace_scan_absent:
  "\<not> sublist h s \<Longrightarrow> replace_scan h [] s = s"
proof (induction s)
  case Nil
  show ?case by simp
next
  case (Cons c cs)
  from Cons.prems have both: "\<not> prefix h (c # cs) \<and> \<not> sublist h cs"
    by (simp only: sublist_Cons_right de_Morgan_disj simp_thms)
  from both have ns: "\<not> sublist h cs" by (rule conjunct2)
  from ns have ih: "replace_scan h [] cs = cs" by (rule Cons.IH)
  have "replace_scan h [] (c # cs) = c # replace_scan h [] cs"
    using both by (subst replace_scan.simps) (simp only: simp_thms if_False)
  then show ?case by (simp only: ih)
qed


lemma role_step_colon:
  "role_step r mk m acc = Inr h \<Longrightarrow> CHR '':'' \<in> set mk \<Longrightarrow> colon_or_empty acc \<Longrightarrow> colon_or_empty h"
  by (auto simp: role_step_def colon_or_empty_def getitem_def split: option.splits if_splits)

lemma history_step_colon:
  "history_step m acc = Inr h \<Longrightarrow> colon_or_empty acc \<Longrightarrow> colon_or_empty h"
  unfolding history_step_def
  by (auto split: sum.splits dest!: role_step_colon)

lemma history_loop_colon:
  "history_loop ms acc = Inr h \<Longrightarrow> colon_or_empty acc \<Longrightarrow> colon_or_empty h"
  by (induction ms arbitrary: acc) (auto split: sum.splits dest: history_step_colon)

lemma process_history_colon:
  "process_history ms = Inr h \<Longrightarrow> h \<noteq> [] \<Longrightarrow> CHR '':'' \<in> set h"
  using history_loop_colon [of ms "[]" h] by (simp add: process_history_def colon_or_empty_def)


subsection \<open>Transcript formatting\<close>

lemma history_step_spec:
  "role_tagged m \<Longrightarrow> history_step m acc = Inr (acc @ spec_line m)"
  by (auto simp: role_tagged_def history_step_def role_step_def getitem_def spec_line_def)

lemma history_loop_spec:
  "\<forall>m \<in> set ms. role_tagged m \<Longrightarrow> history_loop ms acc = Inr (acc @ spec_transcript ms)"
  by (induction ms arbitrary: acc) (simp_all add: history_step_spec spec_transcript_def)

text \<open>
  Claim C6. For every ordered list of role-tagged messages (each has a role and a
  content), \<open>_process_history\<close> returns the in-order concatenation of one line per
  recognized message: \<open>'<human>: '\<close>, the content and a newline for the roles \<open>system\<close> and
  \<open>user\<close>, \<open>'<bot>: '\<close>, the content and a newline for the role \<open>assistant\<close>, nothing for
  any other role. The empty list yields the empty string.
\<close>

theorem process_history_transcript:
  "((\<forall>m \<in> set history. role_tagged m) \<longrightarrow>
      process_history history = Inr (spec_transcript history))
   \<and> process_history [] = Inr []"
  by (simp add: process_history_def history_loop_spec)

theorem process_history_transcript_witness:
  "list_all role_tagged
      [[''role'' \<mapsto> ''system'', ''content'' \<mapsto> ''be brief''],
       [''role'' \<mapsto> ''user'', ''content'' \<mapsto> ''hello''],
       [''role'' \<mapsto> ''assistant'', ''content'' \<mapsto> ''hi''],
       [''role'' \<mapsto> ''tool'', ''content'' \<mapsto> ''x'']]
   \<and> process_history [[''role'' \<mapsto> ''system'', ''content'' \<mapsto> ''be brief''],
                      [''role'' \<mapsto> ''user'', ''content'' \<mapsto> ''hello''],
                      [''role'' \<mapsto> ''assistant'', ''content'' \<mapsto> ''hi''],
                      [''role'' \<mapsto> ''tool'', ''content'' \<mapsto> ''x'']]
     = Inr (''<human>: be brief'' @ newline @ ''<human>: hello'' @ newline
            @ ''<bot>: hi'' @ newline)"
  using process_history_transcript
    [of "[[''role'' \<mapsto> ''system'', ''content'' \<mapsto> ''be brief''],
          [''role'' \<mapsto> ''user'', ''content'' \<mapsto> ''hello''],
          [''role'' \<mapsto> ''assistant'', ''content'' \<mapsto> ''hi''],
          [''role'' \<mapsto> ''tool'', ''content'' \<mapsto> ''x'']]"]
  by (simp add: role_tagged_def spec_transcript_def spec_line_def)

lemma process_hello: "process_history hello_messages = Inr hello_history"
  by (simp add: hello_messages_def hello_history_def process_history_def history_step_def
      role_step_def getitem_def)

subsection \<open>Admission hooks and the synapse shim\<close>

text \<open>
  Claim C5. For an arbitrary forward call, \<open>BertEmbeddingMiner.blacklist\<close> returns the
  decision \<open>False\<close> (never reject) and \<open>BertEmbeddingMiner.priority\<close> returns \<open>0.0\<close>; neither
  depends on the adapter or on the call.
\<close>

theorem bert_admission_constant:
  "bert_blacklist self forward_call = Decision False
   \<and> bert_priority self forward_call = 0"
  by (simp add: bert_blacklist_def bert_priority_def)

text \<open>
  Claim C7. The inner \<open>Synapse\<close> class of \<open>BaseTextToVideoMiner.__init__\<close> is pure
  delegation: its \<open>forward\<close>, \<open>blacklist\<close> and \<open>priority\<close> return exactly what the
  enclosing miner's methods return on the same arguments, and its \<open>backward\<close> does
  nothing and returns \<open>None\<close>.
\<close>

theorem synapse_delegates:
  "syn_forward (Synapse self) text num_inference_steps num_frames fps
     = forward self text num_inference_steps num_frames fps
   \<and> syn_blacklist (Synapse self) forward_call = blacklist self forward_call
   \<and> syn_priority (Synapse self) forward_call = priority self forward_call
   \<and> syn_backward (Synapse self) video text' rewards = Inr ()"
  by (simp add: Synapse_def)

subsection \<open>BloomChatMiner: construction and generation\<close>






lemma forward_accelerate_unassigned:
  "tokenizer self = None \<Longrightarrow> pipe self = Some p \<Longrightarrow>
     forward_accelerate self history = Inl (AttributeError ''tokenizer'')"
  by (simp add: forward_accelerate_def generate_accelerate_def getattr_def)





lemma forward_deepspeed_config:
  "forward_deepspeed L (self\<lparr>config := c\<rparr>) history = forward_deepspeed L self history"
  by (simp add: forward_deepspeed_def generate_deepspeed_def)

lemma forward_accelerate_config:
  "forward_accelerate (self\<lparr>config := c\<rparr>) history = forward_accelerate self history"
  by (simp add: forward_accelerate_def generate_accelerate_def)

lemma forward_deepspeed_fixed_length:
  "forward_deepspeed L
     (self\<lparr>ds_engine :=
         map_option (\<lambda>engine. engine\<lparr>module_generate :=
            (\<lambda>inputs max_len. module_generate engine inputs 60)\<rparr>) (ds_engine self),
        pipe := q\<rparr>) history
   = forward_deepspeed L self history"
  by (cases "ds_engine self")
     (simp_all add: forward_deepspeed_def generate_deepspeed_def getattr_def)

lemma forward_accelerate_fixed_length:
  "forward_accelerate
     (self\<lparr>ds_engine := d,
        pipe := map_option (\<lambda>p history kwargs. p history (kwargs\<lparr>max_length := 200\<rparr>))
                 (pipe self)\<rparr>) history
   = forward_accelerate self history"
  by (cases "pipe self")
     (simp_all add: forward_accelerate_def generate_accelerate_def getattr_def)

text \<open>
  Claim C10. The \<open>--bloom.max_new_tokens\<close> option has no effect on generation: two
  adapters that differ only in \<open>bloom.max_new_tokens\<close> give the same result of \<open>forward\<close>
  on every message list. The generation length is fixed in the code: \<open>forward\<close> does not
  change when the model's \<open>generate\<close> is replaced by one that ignores the length it is
  given and uses 60, and the pipeline by one that ignores \<open>max_length\<close> and uses 200.
\<close>

theorem max_new_tokens_unused:
  "bloom_forward L (self\<lparr>config := (config self)\<lparr>bloom_max_new_tokens := n\<rparr>\<rparr>) messages
     = bloom_forward L self messages
   \<and> bloom_forward L self messages
     = bloom_forward L
         (self\<lparr>ds_engine :=
             map_option (\<lambda>engine. engine\<lparr>module_generate :=
                (\<lambda>inputs max_len. module_generate engine inputs 60)\<rparr>) (ds_engine self),
            pipe :=
             map_option (\<lambda>p history kwargs. p history (kwargs\<lparr>max_length := 200\<rparr>))
               (pipe self)\<rparr>)
         messages"
  by (cases "deployment_framework (config self) = ''deepspeed''")
     (simp_all add: bloom_forward_def forward_deepspeed_config forward_accelerate_config
        forward_deepspeed_fixed_length forward_accelerate_fixed_length)

subsection \<open>Failure of the model call\<close>

lemma generate_deepspeed_failure:
  "\<lbrakk>tokenizer self = Some tok; encode tok history = Inr encoded;
    local_rank self = Some rank; tensor_to L encoded rank = Inr inputs;
    ds_engine self = Some engine; module_generate engine inputs 60 = Inl e\<rbrakk>
   \<Longrightarrow> forward_deepspeed L self history = Inl e"
  by (simp add: forward_deepspeed_def generate_deepspeed_def getattr_def)

lemma generate_accelerate_failure:
  "\<lbrakk>pipe self = Some p; tokenizer self = Some tok;
    p history \<lparr> max_length = 200, do_sample = True, top_k = 10,
                num_return_sequences = 1, kw_eos_token_id = eos_token_id tok \<rparr> = Inl e\<rbrakk>
   \<Longrightarrow> forward_accelerate self history = Inl e"
  by (simp add: forward_accelerate_def generate_accelerate_def getattr_def)

lemma bert_model_failure:
  "\<lbrakk>bert_tokenizer self text = Inr enc;
    encoding_to self enc (bert_device (bert_cfg self)) = Inr encoded_input;
    bert_model self encoded_input = Inl e\<rbrakk>
   \<Longrightarrow> bert_forward self text = Inl e"
  by (simp add: bert_forward_def bert_pooled_def)

text \<open>
  Claim C8. A failure of the model invocation inside \<open>BertEmbeddingMiner.forward\<close> or
  \<open>BloomChatMiner.forward\<close> leaves \<open>forward\<close> unchanged: when the steps before it succeed
  and the model call (the embedding model, \<open>generate\<close> of the sharded model, or the
  generation pipeline) raises \<open>e\<close>, \<open>forward\<close> raises the same \<open>e\<close>. Nothing is caught,
  retried or replaced by a fallback.
\<close>

theorem model_failure_propagates:
  "(bert_tokenizer bert sentences = Inr enc
      \<and> encoding_to bert enc (bert_device (bert_cfg bert)) = Inr encoded_input
      \<and> bert_model bert encoded_input = Inl e
      \<longrightarrow> bert_forward bert sentences = Inl e)
   \<and> (process_history messages = Inr history
      \<and> deployment_framework (config self) = ''deepspeed''
      \<and> tokenizer self = Some tok \<and> encode tok history = Inr encoded
      \<and> local_rank self = Some rank \<and> tensor_to L encoded rank = Inr inputs
      \<and> ds_engine self = Some engine \<and> module_generate engine inputs 60 = Inl e
      \<longrightarrow> bloom_forward L self messages = Inl e)
   \<and> (process_history messages = Inr history
      \<and> deployment_framework (config self) \<noteq> ''deepspeed''
      \<and> pipe self = Some p \<and> tokenizer self = Some tok
      \<and> p history \<lparr> max_length = 200, do_sample = True, top_k = 10,
                    num_return_sequences = 1, kw_eos_token_id = eos_token_id tok \<rparr> = Inl e
      \<longrightarrow> bloom_forward L self messages = Inl e)"
  by (simp add: bloom_forward_def bert_model_failure generate_deepspeed_failure
      generate_accelerate_failure)

theorem model_failure_propagates_witness:
  "bert_forward (fixed_bert (Inl (ExternalError ''CUDA out of memory'')) (const_mask (1, 1) 1))
       [''hello'']
     = Inl (ExternalError ''CUDA out of memory'')
   \<and> bloom_forward fixed_libs
       (deepspeed_miner [] (Inl (ExternalError ''CUDA out of memory''))) hello_messages
     = Inl (ExternalError ''CUDA out of memory'')
   \<and> bloom_forward fixed_libs
       (accelerate_miner (Inl (ExternalError ''CUDA out of memory''))) hello_messages
     = Inl (ExternalError ''CUDA out of memory'')"
proof -
  let ?e = "ExternalError ''CUDA out of memory''"
  let ?kw = "\<lparr> max_length = 200, do_sample = True, top_k = 10,
               num_return_sequences = 1, kw_eos_token_id = Some 2 \<rparr>"
  have bert: "bert_forward (fixed_bert (Inl ?e) (const_mask (1, 1) 1)) [''hello''] = Inl ?e"
    using model_failure_propagates
      [where bert = "fixed_bert (Inl ?e) (const_mask (1, 1) 1)" and sentences = "[''hello'']"
         and enc = "[''attention_mask'' \<mapsto> const_mask (1, 1) 1]"
         and encoded_input = "[''attention_mask'' \<mapsto> const_mask (1, 1) 1]" and e = ?e]
    by (simp add: fixed_bert_def)
  have ds: "bloom_forward fixed_libs (deepspeed_miner [] (Inl ?e)) hello_messages = Inl ?e"
    using model_failure_propagates
      [where e = ?e and messages = hello_messages and history = hello_history
         and self = "deepspeed_miner [] (Inl ?e)" and tok = "fixed_tokenizer []"
         and encoded = "[[1, 2, 3]]" and rank = 0 and L = fixed_libs
         and inputs = "[[1, 2, 3]]" and engine = "fixed_engine (Inl ?e)"]
    by (simp add: process_hello deepspeed_miner_def base_miner_def fixed_tokenizer_def
        fixed_libs_def fixed_engine_def)
  have acc: "bloom_forward fixed_libs (accelerate_miner (Inl ?e)) hello_messages = Inl ?e"
    using model_failure_propagates
      [where e = ?e and messages = hello_messages and history = hello_history
         and self = "accelerate_miner (Inl ?e)" and tok = "fixed_tokenizer []"
         and L = fixed_libs and p = "fixed_pipeline (Inl ?e)"]
    by (simp add: process_hello accelerate_miner_def base_miner_def fixed_tokenizer_def
        fixed_pipeline_def)
  from bert ds acc show ?thesis by simp
qed

subsection \<open>Echo stripping\<close>

text \<open>
  The example transcript \<open>[{"role": "user", "content": "hello"}]\<close> in the \<open>deepspeed\<close>
  branch, with a decoded model output that is the transcript followed by
  \<open>"<human>: <human>: hello\nhello\n"\<close>: the single pass of \<open>replace\<close> removes the leading
  echo and the occurrence inside the continuation, and what remains is the transcript
  itself. The returned string has the full transcript as a prefix.
\<close>

theorem echo_not_stripped_counterexample:
  "process_history hello_messages = Inr hello_history
   \<and> bloom_forward fixed_libs
        (deepspeed_miner
           (hello_history @ ''<human>: <human>: hello'' @ newline @ ''hello'' @ newline)
           (Inr [[1, 2, 3]]))
        hello_messages
      = Inr hello_history
   \<and> prefix hello_history hello_history"
  by (simp add: process_hello bloom_forward_def forward_deepspeed_def generate_deepspeed_def
      deepspeed_miner_def base_miner_def fixed_tokenizer_def fixed_libs_def fixed_engine_def
      getattr_def py_replace_def hello_history_def newline_def)

lemma forward_accelerate_no_colon:
  assumes "forward_accelerate self history = Inr resp"
  shows "CHR '':'' \<notin> set resp"
proof -
  from assms obtain g where resp: "resp = py_replace (last (py_split g CHR '':'')) history []"
    by (auto simp: forward_accelerate_def then_do_Inr_iff)
  have "set resp \<subseteq> set (last (py_split g CHR '':''))"
    unfolding resp by (rule set_py_replace)
  moreover have "CHR '':'' \<notin> set (last (py_split g CHR '':''))"
    by (rule py_split_last)
  ultimately show ?thesis by blast
qed

lemma no_colon_no_prefix:
  assumes "CHR '':'' \<in> set history" and "CHR '':'' \<notin> set resp"
  shows "\<not> prefix history resp"
proof
  assume "prefix history resp"
  then have "set history \<subseteq> set resp" by (rule set_mono_prefix)
  with assms show False by blast
qed

lemma forward_deepspeed_echo:
  assumes "generate_deepspeed L self history = Inr (history @ continuation)"
    and "history \<noteq> []"
  shows "forward_deepspeed L self history = Inr (replace_scan history [] continuation)"
  using assms by (simp add: forward_deepspeed_def py_replace_def replace_scan_echo)

lemma not_sublist_not_prefix:
  assumes "\<not> sublist h s"
  shows "\<not> prefix h s"
proof
  assume "prefix h s"
  then have "sublist h s" by (rule prefix_imp_sublist)
  with assms show False by (rule notE)
qed

text \<open>
  Claim C4, amended. For a message list whose transcript is not empty and an adapter on
  which \<open>forward\<close> returns a string: in the \<open>accelerate\<close> branch the returned string
  contains no colon and so never has the transcript as a prefix; in the \<open>deepspeed\<close>
  branch, when the decoded output is the transcript followed by a continuation, the
  returned string is the continuation with the occurrences of the transcript removed in
  one pass from the left, and when the transcript does not occur in the continuation it
  is exactly the continuation and does not have the transcript as a prefix.
\<close>

theorem echo_stripping:
  "process_history messages = Inr history \<and> history \<noteq> []
     \<and> bloom_forward L self messages = Inr resp \<longrightarrow>
   (deployment_framework (config self) \<noteq> ''deepspeed'' \<longrightarrow>
      CHR '':'' \<notin> set resp \<and> \<not> prefix history resp)
   \<and> (deployment_framework (config self) = ''deepspeed''
        \<and> generate_deepspeed L self history = Inr (history @ continuation) \<longrightarrow>
      resp = py_replace continuation history []
      \<and> (\<not> sublist history continuation \<longrightarrow>
           resp = continuation \<and> \<not> prefix history resp))"
proof (intro impI conjI; elim conjE)
  assume ph: "process_history messages = Inr history" and ne: "history \<noteq> []"
    and fw: "bloom_forward L self messages = Inr resp"
    and acc: "deployment_framework (config self) \<noteq> ''deepspeed''"
  from ph fw acc have "forward_accelerate self history = Inr resp"
    by (simp add: bloom_forward_def)
  then show nc: "CHR '':'' \<notin> set resp" by (rule forward_accelerate_no_colon)
  from ph ne have "CHR '':'' \<in> set history" by (rule process_history_colon)
  then show "\<not> prefix history resp" using nc by (rule no_colon_no_prefix)
next
  assume ph: "process_history messages = Inr history" and ne: "history \<noteq> []"
    and fw: "bloom_forward L self messages = Inr resp"
    and ds: "deployment_framework (config self) = ''deepspeed''"
    and gen: "generate_deepspeed L self history = Inr (history @ continuation)"
  from ph fw ds have "forward_deepspeed L self history = Inr resp"
    by (simp add: bloom_forward_def)
  with forward_deepspeed_echo [OF gen ne]
  have resp: "resp = replace_scan history [] continuation" by simp
  with ne show "resp = py_replace continuation history []" by (simp add: py_replace_def)
  {
    assume ns: "\<not> sublist history continuation"
    then show eq: "resp = continuation" unfolding resp by (rule replace_scan_absent)
    from ns have "\<not> prefix history continuation" by (rule not_sublist_not_prefix)
    then show "\<not> prefix history resp" unfolding eq .
  }
qed


theorem echo_stripping_witness:
  "process_history hello_messages = Inr hello_history \<and> hello_history \<noteq> []
   \<and> bloom_forward fixed_libs (accelerate_miner (Inr (hello_history @ ''Hi there'')))
         hello_messages
       = Inr ('' hello'' @ newline @ ''Hi there'')
   \<and> \<not> prefix hello_history ('' hello'' @ newline @ ''Hi there'')
   \<and> generate_deepspeed fixed_libs
         (deepspeed_miner (hello_history @ ''Hi there'') (Inr [[1, 2, 3]])) hello_history
       = Inr (hello_history @ ''Hi there'')
   \<and> \<not> sublist hello_history ''Hi there''
   \<and> bloom_forward fixed_libs
         (deepspeed_miner (hello_history @ ''Hi there'') (Inr [[1, 2, 3]])) hello_messages
       = Inr ''Hi there''
   \<and> \<not> prefix hello_history ''Hi there''"
proof -
  let ?acc = "accelerate_miner (Inr (hello_history @ ''Hi there''))"
  let ?ds = "deepspeed_miner (hello_history @ ''Hi there'') (Inr [[1, 2, 3]])"
  have ne: "hello_history \<noteq> []" by (simp add: hello_history_def)
  have acc_fw: "bloom_forward fixed_libs ?acc hello_messages
      = Inr ('' hello'' @ newline @ ''Hi there'')"
    by (simp add: process_hello bloom_forward_def forward_accelerate_def
        generate_accelerate_def accelerate_miner_def base_miner_def fixed_tokenizer_def
        fixed_pipeline_def getattr_def getitem_def py_replace_def py_split_def
        hello_history_def newline_def)
  have acc_cfg: "deployment_framework (config ?acc) \<noteq> ''deepspeed''"
    by (simp add: accelerate_miner_def base_miner_def)
  have ds_cfg: "deployment_framework (config ?ds) = ''deepspeed''"
    by (simp add: deepspeed_miner_def base_miner_def)
  have gen: "generate_deepspeed fixed_libs ?ds hello_history = Inr (hello_history @ ''Hi there'')"
    by (simp add: generate_deepspeed_def deepspeed_miner_def base_miner_def
        fixed_tokenizer_def fixed_libs_def fixed_engine_def getattr_def)
  have ds_fw: "bloom_forward fixed_libs ?ds hello_messages = Inr ''Hi there''"
    by (simp add: process_hello bloom_forward_def forward_deepspeed_def
        generate_deepspeed_def deepspeed_miner_def base_miner_def fixed_tokenizer_def
        fixed_libs_def fixed_engine_def getattr_def py_replace_def
        hello_history_def newline_def)
  have ns: "\<not> sublist hello_history ''Hi there''"
    unfolding hello_history_def newline_def by code_simp
  have a: "\<not> prefix hello_history ('' hello'' @ newline @ ''Hi there'')"
    using echo_stripping
      [where messages = hello_messages and history = hello_history and L = fixed_libs
         and self = ?acc and resp = "'' hello'' @ newline @ ''Hi there''"]
      process_hello ne acc_fw acc_cfg
    by blast
  have d: "\<not> prefix hello_history ''Hi there''"
    using echo_stripping
      [where messages = hello_messages and history = hello_history and L = fixed_libs
         and self = ?ds and resp = "''Hi there''" and continuation = "''Hi there''"]
      process_hello ne ds_fw ds_cfg gen ns
    by blast
  from process_hello ne acc_fw a gen ns ds_fw d show ?thesis by blast
qed

subsection \<open>Mean pooling and normalization\<close>

lemma pooling_floor_pos: "0 < pooling_floor"
  by (simp add: pooling_floor_def)

lemma normalize_eps_pos: "0 < normalize_eps"
  by (simp add: normalize_eps_def)

lemma mean_pooling_formula:
  assumes "size3 (token_embeddings model_out) = (B, S, H)" and "isize2 attention_mask = (B, S)"
  shows "mean_pooling model_out attention_mask
    = Inr \<lparr> size2 = (B, H),
            at2 = (\<lambda>b h.
              (\<Sum>s<S. at3 (token_embeddings model_out) b s h * real_of_int (iat2 attention_mask b s))
              / max (\<Sum>s<S. real_of_int (iat2 attention_mask b s)) pooling_floor) \<rparr>"
  using assms
  by (simp add: mean_pooling_def unsqueeze_expand_float_def div2_def sum_dim1_def mul3_def
      clamp_min_def Let_def)

lemma bert_pooled_steps:
  "\<lbrakk>bert_tokenizer self sentences = Inr enc;
    encoding_to self enc (bert_device (bert_cfg self)) = Inr encoded_input;
    bert_model self encoded_input = Inr model_out;
    encoded_input ''attention_mask'' = Some attention_mask\<rbrakk>
   \<Longrightarrow> bert_pooled self sentences = mean_pooling model_out attention_mask"
  by (simp add: bert_pooled_def getitem_def)

text \<open>
  Claim C2. For token embeddings of size \<open>(B, S, H)\<close> and an attention mask of size
  \<open>(B, S)\<close>, \<open>mean_pooling\<close> returns for row \<open>b\<close> and column \<open>h\<close> the sum over the
  tokens of the embedding weighted by the mask, divided by the mask count of the row
  floored at \<open>1e-9\<close>; the denominator is positive, so the division is defined.
  \<open>BertEmbeddingMiner.forward\<close> applies this reduction to the model output and the
  \<open>attention_mask\<close> of the encoded input, and normalizes the result.
\<close>

theorem mean_pooling_masked_mean:
  "(size3 (token_embeddings model_out) = (B, S, H) \<and> isize2 attention_mask = (B, S) \<longrightarrow>
      mean_pooling model_out attention_mask
        = Inr \<lparr> size2 = (B, H),
                at2 = (\<lambda>b h.
                  (\<Sum>s<S. at3 (token_embeddings model_out) b s h
                           * real_of_int (iat2 attention_mask b s))
                  / max (\<Sum>s<S. real_of_int (iat2 attention_mask b s)) pooling_floor) \<rparr>
      \<and> 0 < max (\<Sum>s<S. real_of_int (iat2 attention_mask b s)) pooling_floor)
   \<and> (bert_tokenizer self sentences = Inr enc
        \<and> encoding_to self enc (bert_device (bert_cfg self)) = Inr encoded_input
        \<and> bert_model self encoded_input = Inr model_out
        \<and> encoded_input ''attention_mask'' = Some attention_mask \<longrightarrow>
      bert_forward self sentences
        = then_do (mean_pooling model_out attention_mask) (\<lambda>pooled. Inr (normalize pooled)))"
proof (intro conjI impI; (elim conjE)?)
  assume "size3 (token_embeddings model_out) = (B, S, H)" "isize2 attention_mask = (B, S)"
  then show "mean_pooling model_out attention_mask
        = Inr \<lparr> size2 = (B, H),
                at2 = (\<lambda>b h.
                  (\<Sum>s<S. at3 (token_embeddings model_out) b s h
                           * real_of_int (iat2 attention_mask b s))
                  / max (\<Sum>s<S. real_of_int (iat2 attention_mask b s)) pooling_floor) \<rparr>"
    by (rule mean_pooling_formula)
next
  show "0 < max (\<Sum>s<S. real_of_int (iat2 attention_mask b s)) pooling_floor"
    using pooling_floor_pos by (simp add: max_def)
next
  assume "bert_tokenizer self sentences = Inr enc"
    "encoding_to self enc (bert_device (bert_cfg self)) = Inr encoded_input"
    "bert_model self encoded_input = Inr model_out"
    "encoded_input ''attention_mask'' = Some attention_mask"
  then have "bert_pooled self sentences = mean_pooling model_out attention_mask"
    by (rule bert_pooled_steps)
  then show "bert_forward self sentences
        = then_do (mean_pooling model_out attention_mask) (\<lambda>pooled. Inr (normalize pooled))"
    by (simp add: bert_forward_def)
qed

lemma sum_lessThan_two: "(\<Sum>s<(2::nat). f s) = f 0 + (f 1 :: real)"
  by (simp add: numeral_2_eq_2)

theorem mean_pooling_masked_mean_witness:
  "size3 (token_embeddings three_four_output) = (1, 2, 2)
   \<and> isize2 first_token_mask = (1, 2)
   \<and> mean_pooling three_four_output first_token_mask = Inr three_four_pooled
   \<and> at2 three_four_pooled 0 0 = 3 \<and> at2 three_four_pooled 0 1 = 4
   \<and> bert_forward (fixed_bert (Inr three_four_output) first_token_mask) [''hello'']
     = Inr (normalize three_four_pooled)"
proof -
  let ?self = "fixed_bert (Inr three_four_output) first_token_mask"
  let ?enc = "[''attention_mask'' \<mapsto> first_token_mask]"
  have sz: "size3 (token_embeddings three_four_output) = (1, 2, 2)"
    by (simp add: three_four_output_def)
  have msz: "isize2 first_token_mask = (1, 2)"
    by (simp add: first_token_mask_def)
  have steps: "bert_tokenizer ?self [''hello''] = Inr ?enc
      \<and> encoding_to ?self ?enc (bert_device (bert_cfg ?self)) = Inr ?enc
      \<and> bert_model ?self ?enc = Inr three_four_output
      \<and> ?enc ''attention_mask'' = Some first_token_mask"
    by (simp add: fixed_bert_def)
  note inst = mean_pooling_masked_mean
    [where model_out = three_four_output and attention_mask = first_token_mask
       and B = 1 and S = 2 and H = 2 and self = ?self and sentences = "[''hello'']"
       and enc = ?enc and encoded_input = ?enc and b = 0]
  from inst sz msz have "mean_pooling three_four_output first_token_mask
      = Inr \<lparr> size2 = (1, 2),
              at2 = (\<lambda>b h.
                (\<Sum>s<2. at3 (token_embeddings three_four_output) b s h
                         * real_of_int (iat2 first_token_mask b s))
                / max (\<Sum>s<2. real_of_int (iat2 first_token_mask b s)) pooling_floor) \<rparr>"
    by blast
  then have mp: "mean_pooling three_four_output first_token_mask = Inr three_four_pooled"
    by (simp add: three_four_output_def first_token_mask_def three_four_pooled_def
        sum_lessThan_two pooling_floor_def)
  from inst steps have "bert_forward ?self [''hello'']
      = then_do (mean_pooling three_four_output first_token_mask)
          (\<lambda>pooled. Inr (normalize pooled))"
    by blast
  then have fw: "bert_forward ?self [''hello''] = Inr (normalize three_four_pooled)"
    by (simp add: mp)
  have vals: "at2 three_four_pooled 0 0 = 3 \<and> at2 three_four_pooled 0 1 = 4"
    by (simp add: three_four_pooled_def)
  from sz msz mp vals fw show ?thesis by blast
qed

subsection \<open>Padding rows and the special values\<close>

text \<open>
  On finite values the reduction over floats is the reduction over the reals: the two
  floors keep every denominator away from zero, so no special value arises.
\<close>

lemma fsum_finite:
  "(\<And>s. s < n \<Longrightarrow> f s = Finite (g s)) \<Longrightarrow> fsum n f = Finite (\<Sum>s<n. g s)"
  by (induction n) simp_all

lemma fsum_zero:
  "(\<And>s. s < n \<Longrightarrow> f s = Finite 0) \<Longrightarrow> fsum n f = Finite 0"
  using fsum_finite [of n f "\<lambda>s. 0"] by simp

lemma fp_mean_pooling_finite:
  "fp_mean_pooling \<lparr> fp_token_embeddings = finite3 (token_embeddings model_out) \<rparr> attention_mask
     = (case mean_pooling model_out attention_mask of
          Inl e \<Rightarrow> Inl e
        | Inr pooled \<Rightarrow> Inr (finite2 pooled))"
proof -
  obtain B S H where sz: "size3 (token_embeddings model_out) = (B, S, H)"
    by (cases "size3 (token_embeddings model_out)") auto
  obtain mB mS where msz: "isize2 attention_mask = (mB, mS)"
    by (cases "isize2 attention_mask") auto
  have pos: "\<And>x. max x pooling_floor \<noteq> 0"
    by (simp add: pooling_floor_def max_def)
  show ?thesis
    by (simp add: fp_mean_pooling_def mean_pooling_def fp_unsqueeze_expand_float_def
        unsqueeze_expand_float_def finite3_def finite2_def sz msz fp_div2_def div2_def
        fp_sum_dim1_def sum_dim1_def fp_mul3_def mul3_def fp_clamp_min_def clamp_min_def
        fsum_finite pos Let_def)
qed

lemma fp_normalize_finite: "fp_normalize (finite2 x) = finite2 (normalize x)"
proof -
  obtain B H where sz: "size2 x = (B, H)" by (cases "size2 x")
  have nn: "\<And>b. \<not> (\<Sum>h<H. at2 x b h * at2 x b h) < 0"
    by (simp add: not_less sum_nonneg)
  have pos: "\<And>y. max y normalize_eps \<noteq> 0"
    by (simp add: normalize_eps_def max_def)
  show ?thesis
    by (simp add: fp_normalize_def normalize_def finite2_def fp_row_norm_def row_norm_def sz
        fsum_finite nn pos power2_eq_square)
qed


lemma zero_by_zero_is_nan: "fdiv (Finite 0) (Finite 0) = NaN"
  by simp

lemma fmul_finite_zero: "is_finite x \<Longrightarrow> fmul x (Finite 0) = Finite 0"
  by (cases x) simp_all

text \<open>
  A padded position whose embedding is infinite: \<open>inf * 0\<close> is \<open>NaN\<close>, the sum, the
  quotient and the normalized row are \<open>NaN\<close>. The mask multiplies the embedding, it does
  not select it.
\<close>

theorem padded_row_counterexample:
  "iat2 (const_mask (1, 1) 0) 0 0 = 0
   \<and> fp_mean_pooling fp_inf_output (const_mask (1, 1) 0) = Inr fp_nan_row
   \<and> fp_sentence_embeddings fp_inf_output (const_mask (1, 1) 0) = Inr (fp_normalize fp_nan_row)
   \<and> fat2 (fp_normalize fp_nan_row) 0 0 = NaN"
  by (simp add: fp_sentence_embeddings_def fp_mean_pooling_def fp_unsqueeze_expand_float_def
      fp_inf_output_def const_mask_def fp_nan_row_def fp_div2_def fp_sum_dim1_def fp_mul3_def
      fp_clamp_min_def fp_normalize_def)

text \<open>
  Claim C3, amended. For a row whose attention mask is zero at every token and whose
  token embeddings are finite, the pipeline produces neither \<open>NaN\<close> nor an infinity: the
  denominator \<open>mean_pooling\<close> divides by is the floor \<open>1e-9\<close>, which is positive, the pooled
  row is zero, the denominator the normalization divides by is its \<open>eps\<close>, which is
  positive, and the output row is zero. Every operation on the way is exact in floating
  point (a product with zero, a sum of zeros, zero divided by a positive constant), so
  the exactness of finite arithmetic here plays no part. Without either floor the
  division would be \<open>0 / 0\<close>, which is \<open>NaN\<close>.
\<close>

theorem all_padding_row_stays_finite:
  "fsize3 (fp_token_embeddings model_out) = (B, S, H) \<and> isize2 attention_mask = (B, S)
     \<and> (\<forall>s<S. iat2 attention_mask b s = 0)
     \<and> (\<forall>s<S. \<forall>k<H. is_finite (fat3 (fp_token_embeddings model_out) b s k))
     \<and> h < H \<longrightarrow>
   (\<exists>input_mask_expanded pooled.
      fp_unsqueeze_expand_float attention_mask (B, S, H) = Inr input_mask_expanded
      \<and> fat2 (fp_clamp_min (fp_sum_dim1 input_mask_expanded) pooling_floor) b h
          = Finite pooling_floor
      \<and> 0 < pooling_floor
      \<and> fp_mean_pooling model_out attention_mask = Inr pooled
      \<and> fat2 pooled b h = Finite 0
      \<and> fclamp_min (fp_row_norm pooled b) normalize_eps = Finite normalize_eps
      \<and> 0 < normalize_eps
      \<and> fp_sentence_embeddings model_out attention_mask = Inr (fp_normalize pooled)
      \<and> fat2 (fp_normalize pooled) b h = Finite 0)"
proof (intro impI, elim conjE)
  assume sz: "fsize3 (fp_token_embeddings model_out) = (B, S, H)"
    and msz: "isize2 attention_mask = (B, S)"
    and zero: "\<forall>s<S. iat2 attention_mask b s = 0"
    and fin: "\<forall>s<S. \<forall>k<H. is_finite (fat3 (fp_token_embeddings model_out) b s k)"
    and h: "h < H"
  define m where "m = \<lparr> fsize3 = (B, S, H),
      fat3 = (\<lambda>b s h. Finite (real_of_int (iat2 attention_mask b s))) \<rparr>"
  define pooled where "pooled = fp_div2 (fp_sum_dim1 (fp_mul3 (fp_token_embeddings model_out) m))
      (fp_clamp_min (fp_sum_dim1 m) pooling_floor)"
  have expand: "fp_unsqueeze_expand_float attention_mask (B, S, H) = Inr m"
    by (simp add: fp_unsqueeze_expand_float_def msz m_def)
  have mp: "fp_mean_pooling model_out attention_mask = Inr pooled"
    by (simp add: fp_mean_pooling_def sz expand pooled_def Let_def)
  have fw: "fp_sentence_embeddings model_out attention_mask = Inr (fp_normalize pooled)"
    by (simp add: fp_sentence_embeddings_def mp)
  have fp: "0 < pooling_floor" by (simp add: pooling_floor_def)
  have ep: "0 < normalize_eps" by (simp add: normalize_eps_def)
  have count: "fsum S (\<lambda>s. Finite (real_of_int (iat2 attention_mask b s))) = Finite 0"
    using zero by (intro fsum_zero) simp
  have den: "\<And>k. fat2 (fp_clamp_min (fp_sum_dim1 m) pooling_floor) b k = Finite pooling_floor"
    using fp by (simp add: fp_clamp_min_def fp_sum_dim1_def m_def count max_def)
  have num: "\<And>k. k < H \<Longrightarrow>
      fsum S (\<lambda>s. fmul (fat3 (fp_token_embeddings model_out) b s k) (fat3 m b s k)) = Finite 0"
  proof (rule fsum_zero)
    fix k s assume "k < H" "s < S"
    with fin zero show "fmul (fat3 (fp_token_embeddings model_out) b s k) (fat3 m b s k) = Finite 0"
      by (simp add: m_def fmul_finite_zero)
  qed
  have row: "\<And>k. k < H \<Longrightarrow> fat2 pooled b k = Finite 0"
  proof -
    fix k assume k: "k < H"
    have "fat2 pooled b k = fdiv (Finite 0) (Finite pooling_floor)"
      using num [OF k] den [of k]
      by (simp add: pooled_def fp_div2_def fp_sum_dim1_def fp_mul3_def sz m_def)
    then show "fat2 pooled b k = Finite 0" using fp by simp
  qed
  have psz: "fsize2 pooled = (B, H)"
    by (simp add: pooled_def fp_div2_def fp_sum_dim1_def fp_mul3_def sz)
  have "fsum H (\<lambda>k. fmul (fat2 pooled b k) (fat2 pooled b k)) = Finite 0"
    by (rule fsum_zero) (simp add: row)
  then have norm: "fp_row_norm pooled b = Finite 0"
    by (simp add: fp_row_norm_def psz)
  have nden: "fclamp_min (fp_row_norm pooled b) normalize_eps = Finite normalize_eps"
    using ep by (simp add: norm max_def)
  have out: "fat2 (fp_normalize pooled) b h = Finite 0"
    using ep by (simp add: fp_normalize_def nden row [OF h])
  from expand den [of h] fp mp row [OF h] nden ep fw out
  show "\<exists>input_mask_expanded pooled.
      fp_unsqueeze_expand_float attention_mask (B, S, H) = Inr input_mask_expanded
      \<and> fat2 (fp_clamp_min (fp_sum_dim1 input_mask_expanded) pooling_floor) b h
          = Finite pooling_floor
      \<and> 0 < pooling_floor
      \<and> fp_mean_pooling model_out attention_mask = Inr pooled
      \<and> fat2 pooled b h = Finite 0
      \<and> fclamp_min (fp_row_norm pooled b) normalize_eps = Finite normalize_eps
      \<and> 0 < normalize_eps
      \<and> fp_sentence_embeddings model_out attention_mask = Inr (fp_normalize pooled)
      \<and> fat2 (fp_normalize pooled) b h = Finite 0"
    by blast
qed


lemma fsum_two: "fsum 2 f = fadd (fadd (Finite 0) (f 0)) (f 1)"
  by (simp add: numeral_2_eq_2)

lemma zero_mask_fp_pooling:
  "fp_mean_pooling fp_three_four_output (const_mask (1, 2) 0) = Inr fp_zero_row"
  by (simp add: fp_mean_pooling_def fp_unsqueeze_expand_float_def fp_three_four_output_def
      finite3_def three_four_output_def const_mask_def fp_zero_row_def fp_div2_def
      fp_sum_dim1_def fp_mul3_def fp_clamp_min_def fsum_two pooling_floor_def Let_def)

theorem all_padding_row_stays_finite_witness:
  "fsize3 (fp_token_embeddings fp_three_four_output) = (1, 2, 2)
   \<and> isize2 (const_mask (1, 2) 0) = (1, 2)
   \<and> iat2 (const_mask (1, 2) 0) 0 0 = 0 \<and> iat2 (const_mask (1, 2) 0) 0 1 = 0
   \<and> fat3 (fp_token_embeddings fp_three_four_output) 0 0 1 = Finite 4
   \<and> fat3 (fp_token_embeddings fp_three_four_output) 0 1 1 = Finite 4
   \<and> fp_mean_pooling fp_three_four_output (const_mask (1, 2) 0) = Inr fp_zero_row
   \<and> fat2 fp_zero_row 0 1 = Finite 0
   \<and> fp_sentence_embeddings fp_three_four_output (const_mask (1, 2) 0)
       = Inr (fp_normalize fp_zero_row)
   \<and> fat2 (fp_normalize fp_zero_row) 0 1 = Finite 0"
proof -
  have sz: "fsize3 (fp_token_embeddings fp_three_four_output) = (1, 2, 2)"
    by (simp add: fp_three_four_output_def finite3_def three_four_output_def)
  have msz: "isize2 (const_mask (1, 2) 0) = (1, 2)"
    by (simp add: const_mask_def)
  have zero: "\<forall>s<2. iat2 (const_mask (1, 2) 0) 0 s = 0"
    by (simp add: const_mask_def)
  have fin: "\<forall>s<2. \<forall>k<2. is_finite (fat3 (fp_token_embeddings fp_three_four_output) 0 s k)"
    by (simp add: fp_three_four_output_def finite3_def)
  have vals: "fat3 (fp_token_embeddings fp_three_four_output) 0 0 1 = Finite 4
      \<and> fat3 (fp_token_embeddings fp_three_four_output) 0 1 1 = Finite 4"
    by (simp add: fp_three_four_output_def finite3_def three_four_output_def)
  from all_padding_row_stays_finite
    [where model_out = fp_three_four_output and attention_mask = "const_mask (1, 2) 0"
       and B = 1 and S = 2 and H = 2 and b = 0 and h = 1]
    sz msz zero fin
  obtain pooled where
    mp: "fp_mean_pooling fp_three_four_output (const_mask (1, 2) 0) = Inr pooled"
    and row: "fat2 pooled 0 1 = Finite 0"
    and fw: "fp_sentence_embeddings fp_three_four_output (const_mask (1, 2) 0)
        = Inr (fp_normalize pooled)"
    and out: "fat2 (fp_normalize pooled) 0 1 = Finite 0"
    by auto
  from mp zero_mask_fp_pooling have eq: "pooled = fp_zero_row" by simp
  from sz msz zero vals zero_mask_fp_pooling row fw out
  show ?thesis unfolding eq by (simp add: const_mask_def)
qed

end
